theory Spec2Isabelle
  imports Complex_Main "HOL-Library.Sublist"
begin

section \<open>Python values\<close>

text \<open>
  A Python \<open>float\<close> is modelled by the number it denotes, plus the three special values.
  The only operations the program applies to a float are the comparisons against the bounds
  \<open>0.0\<close> and \<open>10.0\<close> of \<open>Field(ge=0.0, le=10.0)\<close>; no float arithmetic is performed, so
  rounding plays no part. Every comparison with NaN is false, so NaN satisfies no bound.
\<close>

datatype pyfloat = Finite real | PosInf | NegInf | NaN

fun float_ge :: "pyfloat \<Rightarrow> real \<Rightarrow> bool" where
  "float_ge (Finite x) b = (b \<le> x)"
| "float_ge PosInf b = True"
| "float_ge NegInf b = False"
| "float_ge NaN b = False"

fun float_le :: "pyfloat \<Rightarrow> real \<Rightarrow> bool" where
  "float_le (Finite x) b = (x \<le> b)"
| "float_le PosInf b = False"
| "float_le NegInf b = True"
| "float_le NaN b = False"

text \<open>
  The values that reach the program at run time: arguments of a tool call, JSON payloads and
  decoded JSON responses. A \<open>dict\<close> is an association list in insertion order.
\<close>

datatype pyval =
    PNone
  | PInt int
  | PFloat pyfloat
  | PStr string
  | PList "pyval list"
  | PDict "(pyval \<times> pyval) list"

type_synonym kwargs = "(string \<times> pyval) list"

section \<open>Errors, requests and the environment\<close>

text \<open>
  \<open>ValidationError\<close> is pydantic's, \<open>TypeError\<close> is Python's for a call that misses a
  required argument, \<open>TransportError\<close> stands for httpx's timeout and connection errors,
  \<open>HTTPError status body\<close> for \<open>httpx.HTTPStatusError\<close> (it holds the response), and
  \<open>DecodeError\<close> for the \<open>ValueError\<close> of \<open>r.json()\<close>.
\<close>

datatype error =
    ValidationError
  | TypeError
  | TransportError
  | HTTPError nat string
  | DecodeError

text \<open>What \<open>client.post(url, json=payload, headers=headers)\<close> hands to the network.\<close>

record request =
  url :: string
  headers :: "(string \<times> string) list"
  json :: pyval
  timeout :: nat

datatype reply = TimedOut | Reply nat string

text \<open>\<open>settings\<close> of the configuration module: the two attributes the program reads.\<close>

record settings =
  rec_engine_url :: string
  rec_api_key :: "string option"

text \<open>
  Everything outside the repository is a parameter: the configuration, the remote service
  (\<open>transport\<close>: what the engine answers to a request), the JSON decoder of \<open>r.json()\<close>
  (\<open>loads\<close>), and pydantic's parsers of numeric strings (\<open>float_of_str\<close>, \<open>int_of_str\<close>).
\<close>

record env =
  settings :: settings
  transport :: "request \<Rightarrow> reply"
  loads :: "string \<Rightarrow> pyval option"
  float_of_str :: "string \<Rightarrow> pyfloat option"
  int_of_str :: "string \<Rightarrow> int option"

text \<open>
  The result of a call, and the requests it issued, in order (what a call-spy on the
  HTTP client records).
\<close>

type_synonym outcome = "(error + pyval) \<times> request list"

section \<open>Internal POST helper\<close>

text \<open>\<open>str.rstrip("/")\<close>: every trailing slash is removed.\<close>

definition rstrip_slash :: "string \<Rightarrow> string" where
  "rstrip_slash s = rev (dropWhile (\<lambda>c. c = CHR ''/'') (rev s))"

text \<open>Truthiness of \<open>settings.rec_api_key\<close>: \<open>None\<close> and the empty string are false.\<close>

fun truthy :: "string option \<Rightarrow> bool" where
  "truthy None = False"
| "truthy (Some k) = (k \<noteq> [])"

text \<open>\<open>Response.is_success\<close> of httpx, which \<open>raise_for_status\<close> tests.\<close>

definition is_success :: "nat \<Rightarrow> bool" where
  "is_success status = (200 \<le> status \<and> status \<le> 299)"

text \<open>
  \<open>_post(path, payload)\<close> (an Isabelle name cannot start with an underscore).
\<close>

definition post :: "env \<Rightarrow> string \<Rightarrow> pyval \<Rightarrow> outcome" where
  "post e path payload =
     (let base = rstrip_slash (rec_engine_url (settings e));
          hdrs = (if truthy (rec_api_key (settings e))
                  then [(''Authorization'', ''Bearer '' @ the (rec_api_key (settings e)))]
                  else []);
          req = \<lparr>url = base @ path, headers = hdrs, json = payload, timeout = 30\<rparr>
      in case transport e req of
           TimedOut \<Rightarrow> (Inl TransportError, [req])
         | Reply status body \<Rightarrow>
             if is_success status
             then (case loads e body of
                     None \<Rightarrow> (Inl DecodeError, [req])
                   | Some v \<Rightarrow> (Inr v, [req]))
             else (Inl (HTTPError status body), [req]))"

section \<open>Control and content discovery functions\<close>

text \<open>
  A parameter with a default value (\<open>limit: int = 10\<close>, \<open>category: str = "all"\<close>) is an
  optional argument: \<open>None\<close> is the omitted argument. The annotations of the parameters
  are not checked by Python, so every argument is an arbitrary value.
\<close>

definition set_recommendation_weights :: "env \<Rightarrow> pyval \<Rightarrow> outcome" where
  "set_recommendation_weights e weights =
     post e ''/api/control/set_weights'' (PDict [(PStr ''weights'', weights)])"

definition boost_creator :: "env \<Rightarrow> pyval \<Rightarrow> pyval \<Rightarrow> outcome" where
  "boost_creator e creator_id factor =
     post e ''/api/control/boost_creator''
       (PDict [(PStr ''creator_id'', creator_id), (PStr ''factor'', factor)])"

definition demote_creator :: "env \<Rightarrow> pyval \<Rightarrow> pyval \<Rightarrow> outcome" where
  "demote_creator e creator_id factor =
     post e ''/api/control/demote_creator''
       (PDict [(PStr ''creator_id'', creator_id), (PStr ''factor'', factor)])"

definition block_tag :: "env \<Rightarrow> pyval \<Rightarrow> outcome" where
  "block_tag e tag = post e ''/api/control/block_tag'' (PDict [(PStr ''tag'', tag)])"

definition unblock_tag :: "env \<Rightarrow> pyval \<Rightarrow> outcome" where
  "unblock_tag e tag = post e ''/api/control/unblock_tag'' (PDict [(PStr ''tag'', tag)])"

definition or_default :: "pyval option \<Rightarrow> pyval \<Rightarrow> pyval" where
  "or_default a d = (case a of None \<Rightarrow> d | Some v \<Rightarrow> v)"

definition search_content :: "env \<Rightarrow> pyval \<Rightarrow> pyval option \<Rightarrow> outcome" where
  "search_content e query limit =
     post e ''/api/search/content''
       (PDict [(PStr ''query'', query), (PStr ''limit'', or_default limit (PInt 10))])"

definition trending_content :: "env \<Rightarrow> pyval option \<Rightarrow> pyval option \<Rightarrow> outcome" where
  "trending_content e category limit =
     post e ''/api/content/trending''
       (PDict [(PStr ''category'', or_default category (PStr ''all'')),
               (PStr ''limit'', or_default limit (PInt 10))])"

definition personalized_feed :: "env \<Rightarrow> pyval \<Rightarrow> pyval option \<Rightarrow> outcome" where
  "personalized_feed e user_id limit =
     post e ''/api/content/personalized_feed''
       (PDict [(PStr ''user_id'', user_id), (PStr ''limit'', or_default limit (PInt 10))])"

section \<open>Input schemas\<close>

text \<open>
  The annotations used by the request models: \<open>str\<close>, \<open>int\<close>, \<open>float\<close> and
  \<open>Dict[str, float]\<close>.
\<close>

datatype annotation = TStr | TInt | TFloat | TDict annotation annotation

text \<open>
  One class attribute \<open>name: annotation = Field(default=..., ge=..., le=...)\<close>. A field
  without a default is required. The descriptions play no part in validation and are left out.
\<close>

record FieldInfo =
  fname :: string
  annotation :: annotation
  default_value :: "pyval option"
  ge :: "real option"
  le :: "real option"

type_synonym schema = "FieldInfo list"

definition SetWeightsInput :: schema where
  "SetWeightsInput =
     [\<lparr>fname = ''weights'', annotation = TDict TStr TFloat, default_value = None,
       ge = None, le = None\<rparr>]"

definition BoostCreatorInput :: schema where
  "BoostCreatorInput =
     [\<lparr>fname = ''creator_id'', annotation = TStr, default_value = None, ge = None, le = None\<rparr>,
      \<lparr>fname = ''factor'', annotation = TFloat, default_value = None,
       ge = Some 0, le = Some 10\<rparr>]"

definition DemoteCreatorInput :: schema where
  "DemoteCreatorInput =
     [\<lparr>fname = ''creator_id'', annotation = TStr, default_value = None, ge = None, le = None\<rparr>,
      \<lparr>fname = ''factor'', annotation = TFloat, default_value = None,
       ge = Some 0, le = Some 10\<rparr>]"

definition BlockTagInput :: schema where
  "BlockTagInput =
     [\<lparr>fname = ''tag'', annotation = TStr, default_value = None, ge = None, le = None\<rparr>]"

definition UnblockTagInput :: schema where
  "UnblockTagInput =
     [\<lparr>fname = ''tag'', annotation = TStr, default_value = None, ge = None, le = None\<rparr>]"

definition SearchContentInput :: schema where
  "SearchContentInput =
     [\<lparr>fname = ''query'', annotation = TStr, default_value = None, ge = None, le = None\<rparr>,
      \<lparr>fname = ''limit'', annotation = TInt, default_value = Some (PInt 10),
       ge = None, le = None\<rparr>]"

definition TrendingContentInput :: schema where
  "TrendingContentInput =
     [\<lparr>fname = ''category'', annotation = TStr, default_value = Some (PStr ''all''),
       ge = None, le = None\<rparr>,
      \<lparr>fname = ''limit'', annotation = TInt, default_value = Some (PInt 10),
       ge = None, le = None\<rparr>]"

definition PersonalizedFeedInput :: schema where
  "PersonalizedFeedInput =
     [\<lparr>fname = ''user_id'', annotation = TStr, default_value = None, ge = None, le = None\<rparr>,
      \<lparr>fname = ''limit'', annotation = TInt, default_value = Some (PInt 10),
       ge = None, le = None\<rparr>]"

subsection \<open>Validation of a request model\<close>

text \<open>
  What \<open>BaseModel\<close> does with these declarations (pydantic 2, default configuration):
  each supplied value is converted to the annotated type or rejected, the bounds are then
  tested on the converted value, a missing field takes its default (which is not validated)
  or is an error, and keys that are no field are ignored. A \<open>str\<close> field takes a string
  only; a \<open>float\<close> field takes a float, an int, or a string that parses as a float; an
  \<open>int\<close> field takes an int, a float without fractional part, or a string that parses
  as an int; a \<open>Dict\<close> field takes a dict whose keys and values convert.
\<close>

fun coerce :: "env \<Rightarrow> annotation \<Rightarrow> pyval \<Rightarrow> pyval option" where
  "coerce e TStr v = (case v of PStr s \<Rightarrow> Some (PStr s) | _ \<Rightarrow> None)"
| "coerce e TInt v =
     (case v of
        PInt i \<Rightarrow> Some (PInt i)
      | PFloat f \<Rightarrow>
          (case f of
             Finite x \<Rightarrow> if x = of_int \<lfloor>x\<rfloor> then Some (PInt \<lfloor>x\<rfloor>) else None
           | _ \<Rightarrow> None)
      | PStr s \<Rightarrow> map_option PInt (int_of_str e s)
      | _ \<Rightarrow> None)"
| "coerce e TFloat v =
     (case v of
        PFloat f \<Rightarrow> Some (PFloat f)
      | PInt i \<Rightarrow> Some (PFloat (Finite (of_int i)))
      | PStr s \<Rightarrow> map_option PFloat (float_of_str e s)
      | _ \<Rightarrow> None)"
| "coerce e (TDict ka va) v =
     (case v of
        PDict items \<Rightarrow>
          map_option PDict
            (those (map (\<lambda>(k, x).
                      case coerce e ka k of
                        None \<Rightarrow> None
                      | Some k' \<Rightarrow> map_option (Pair k') (coerce e va x)) items))
      | _ \<Rightarrow> None)"

text \<open>The conversion of one item of a dict, as \<open>coerce\<close> applies it to every item.\<close>

definition coerce_item ::
  "env \<Rightarrow> annotation \<Rightarrow> annotation \<Rightarrow> pyval \<times> pyval \<Rightarrow> (pyval \<times> pyval) option" where
  "coerce_item e ka va =
     (\<lambda>(k, x). case coerce e ka k of
                 None \<Rightarrow> None
               | Some k' \<Rightarrow> map_option (Pair k') (coerce e va x))"

text \<open>The bounds \<open>ge\<close> and \<open>le\<close> of a field, tested on the converted value.\<close>

fun check_ge :: "real option \<Rightarrow> pyval \<Rightarrow> bool" where
  "check_ge None v = True"
| "check_ge (Some b) (PFloat f) = float_ge f b"
| "check_ge (Some b) (PInt i) = (b \<le> of_int i)"
| "check_ge (Some b) v = True"

fun check_le :: "real option \<Rightarrow> pyval \<Rightarrow> bool" where
  "check_le None v = True"
| "check_le (Some b) (PFloat f) = float_le f b"
| "check_le (Some b) (PInt i) = (of_int i \<le> b)"
| "check_le (Some b) v = True"

definition validate_field :: "env \<Rightarrow> FieldInfo \<Rightarrow> kwargs \<Rightarrow> error + pyval" where
  "validate_field e fld data =
     (case map_of data (fname fld) of
        None \<Rightarrow> (case default_value fld of None \<Rightarrow> Inl ValidationError | Some d \<Rightarrow> Inr d)
      | Some v \<Rightarrow>
          (case coerce e (annotation fld) v of
             None \<Rightarrow> Inl ValidationError
           | Some v' \<Rightarrow>
               if check_ge (ge fld) v' \<and> check_le (le fld) v' then Inr v'
               else Inl ValidationError))"

text \<open>
  The validated instance, as its fields in declaration order (\<open>model_dump()\<close>).
\<close>

fun validate :: "env \<Rightarrow> schema \<Rightarrow> kwargs \<Rightarrow> error + kwargs" where
  "validate e [] data = Inr []"
| "validate e (fld # flds) data =
     (case validate_field e fld data of
        Inl err \<Rightarrow> Inl err
      | Inr v \<Rightarrow>
          (case validate e flds data of
             Inl err \<Rightarrow> Inl err
           | Inr m \<Rightarrow> Inr ((fname fld, v) # m)))"

text \<open>
  A field whose default, when it has one, is a value of the annotated type inside the
  bounds: validation leaves such a default as it is.
\<close>

definition default_ok :: "env \<Rightarrow> FieldInfo \<Rightarrow> bool" where
  "default_ok e fld =
     (case default_value fld of
        None \<Rightarrow> True
      | Some d \<Rightarrow> coerce e (annotation fld) d = Some d
                  \<and> check_ge (ge fld) d \<and> check_le (le fld) d)"

section \<open>Structured tools\<close>

record StructuredTool =
  name :: string
  description :: string
  func :: "env \<Rightarrow> kwargs \<Rightarrow> outcome"
  args_schema :: schema

text \<open>
  Python's binding of keyword arguments to the parameters of the wrapped function: a
  parameter without default that is not supplied is a \<open>TypeError\<close>, and no request is made.
\<close>

definition call1 :: "(env \<Rightarrow> pyval \<Rightarrow> outcome) \<Rightarrow> string \<Rightarrow> env \<Rightarrow> kwargs \<Rightarrow> outcome" where
  "call1 f a e kw = (case map_of kw a of None \<Rightarrow> (Inl TypeError, []) | Some x \<Rightarrow> f e x)"

definition call2 ::
  "(env \<Rightarrow> pyval \<Rightarrow> pyval \<Rightarrow> outcome) \<Rightarrow> string \<Rightarrow> string \<Rightarrow> env \<Rightarrow> kwargs \<Rightarrow> outcome" where
  "call2 f a b e kw =
     (case map_of kw a of
        None \<Rightarrow> (Inl TypeError, [])
      | Some x \<Rightarrow> (case map_of kw b of None \<Rightarrow> (Inl TypeError, []) | Some y \<Rightarrow> f e x y))"

definition call1d ::
  "(env \<Rightarrow> pyval \<Rightarrow> pyval option \<Rightarrow> outcome) \<Rightarrow> string \<Rightarrow> string \<Rightarrow> env \<Rightarrow> kwargs \<Rightarrow> outcome"
  where
  "call1d f a b e kw =
     (case map_of kw a of None \<Rightarrow> (Inl TypeError, []) | Some x \<Rightarrow> f e x (map_of kw b))"

definition call0d ::
  "(env \<Rightarrow> pyval option \<Rightarrow> pyval option \<Rightarrow> outcome) \<Rightarrow> string \<Rightarrow> string \<Rightarrow> env \<Rightarrow> kwargs
     \<Rightarrow> outcome" where
  "call0d f a b e kw = f e (map_of kw a) (map_of kw b)"

definition set_weights_tool :: StructuredTool where
  "set_weights_tool =
     \<lparr>name = ''set_recommendation_weights'',
      description = ''Control the recommendation engine feature weights'',
      func = call1 set_recommendation_weights ''weights'',
      args_schema = SetWeightsInput\<rparr>"

definition boost_creator_tool :: StructuredTool where
  "boost_creator_tool =
     \<lparr>name = ''boost_creator'',
      description = ''Temporarily boost a creator's content in recommendations'',
      func = call2 boost_creator ''creator_id'' ''factor'',
      args_schema = BoostCreatorInput\<rparr>"

definition demote_creator_tool :: StructuredTool where
  "demote_creator_tool =
     \<lparr>name = ''demote_creator'',
      description = ''Temporarily demote a creator's content in recommendations'',
      func = call2 demote_creator ''creator_id'' ''factor'',
      args_schema = DemoteCreatorInput\<rparr>"

definition block_tag_tool :: StructuredTool where
  "block_tag_tool =
     \<lparr>name = ''block_tag'',
      description = ''Block a content tag/category from recommendations'',
      func = call1 block_tag ''tag'',
      args_schema = BlockTagInput\<rparr>"

definition unblock_tag_tool :: StructuredTool where
  "unblock_tag_tool =
     \<lparr>name = ''unblock_tag'',
      description = ''Unblock a content tag/category in recommendations'',
      func = call1 unblock_tag ''tag'',
      args_schema = UnblockTagInput\<rparr>"

definition search_content_tool :: StructuredTool where
  "search_content_tool =
     \<lparr>name = ''search_content'',
      description = ''Search content by keywords or hashtags'',
      func = call1d search_content ''query'' ''limit'',
      args_schema = SearchContentInput\<rparr>"

definition trending_content_tool :: StructuredTool where
  "trending_content_tool =
     \<lparr>name = ''trending_content'',
      description = ''Fetch top trending posts for a category'',
      func = call0d trending_content ''category'' ''limit'',
      args_schema = TrendingContentInput\<rparr>"

definition personalized_feed_tool :: StructuredTool where
  "personalized_feed_tool =
     \<lparr>name = ''personalized_feed'',
      description =
        ''Generate a personalized feed for a specific user based on engagement history'',
      func = call1d personalized_feed ''user_id'' ''limit'',
      args_schema = PersonalizedFeedInput\<rparr>"

text \<open>
  Running a tool on the arguments of a tool call (langchain's \<open>StructuredTool.run\<close>): the
  arguments are validated against \<open>args_schema\<close>; a validation error is raised before the
  wrapped function is entered; otherwise the function is called with the validated values of
  the fields that the caller supplied.
\<close>

definition run :: "env \<Rightarrow> StructuredTool \<Rightarrow> kwargs \<Rightarrow> outcome" where
  "run e t tool_input =
     (case validate e (args_schema t) tool_input of
        Inl err \<Rightarrow> (Inl err, [])
      | Inr m \<Rightarrow> func t e (filter (\<lambda>(k, v). k \<in> set (map fst tool_input)) m))"

text \<open>The tools handed to \<open>DeepAgent(tools=[...])\<close>.\<close>

definition deep_agent_tools :: "StructuredTool list" where
  "deep_agent_tools =
     [set_weights_tool, boost_creator_tool, demote_creator_tool, block_tag_tool,
      unblock_tag_tool, search_content_tool, trending_content_tool, personalized_feed_tool]"

section \<open>A direct call of a capability function\<close>

text \<open>
  The eight functions behind one type, so that a statement can range over all of them:
  a \<open>call\<close> names the function and holds its arguments, \<open>perform\<close> calls it.
\<close>

datatype call =
    SetRecommendationWeights pyval
  | BoostCreator pyval pyval
  | DemoteCreator pyval pyval
  | BlockTag pyval
  | UnblockTag pyval
  | SearchContent pyval "pyval option"
  | TrendingContent "pyval option" "pyval option"
  | PersonalizedFeed pyval "pyval option"

fun perform :: "env \<Rightarrow> call \<Rightarrow> outcome" where
  "perform e (SetRecommendationWeights w) = set_recommendation_weights e w"
| "perform e (BoostCreator c f) = boost_creator e c f"
| "perform e (DemoteCreator c f) = demote_creator e c f"
| "perform e (BlockTag t) = block_tag e t"
| "perform e (UnblockTag t) = unblock_tag e t"
| "perform e (SearchContent q l) = search_content e q l"
| "perform e (TrendingContent c l) = trending_content e c l"
| "perform e (PersonalizedFeed u l) = personalized_feed e u l"

fun cname :: "call \<Rightarrow> string" where
  "cname (SetRecommendationWeights w) = ''set_recommendation_weights''"
| "cname (BoostCreator c f) = ''boost_creator''"
| "cname (DemoteCreator c f) = ''demote_creator''"
| "cname (BlockTag t) = ''block_tag''"
| "cname (UnblockTag t) = ''unblock_tag''"
| "cname (SearchContent q l) = ''search_content''"
| "cname (TrendingContent c l) = ''trending_content''"
| "cname (PersonalizedFeed u l) = ''personalized_feed''"

text \<open>The keys of a payload.\<close>

fun dict_keys :: "pyval \<Rightarrow> pyval list" where
  "dict_keys (PDict items) = map fst items"
| "dict_keys v = []"

text \<open>
  The table of section 4.3 of the specification, in its words: capability, fixed path,
  declared payload keys. The functions above are compared with it.
\<close>

definition spec_mapping :: "(string \<times> string \<times> string list) list" where
  "spec_mapping =
     [(''set_recommendation_weights'', ''/api/control/set_weights'', [''weights'']),
      (''boost_creator'', ''/api/control/boost_creator'', [''creator_id'', ''factor'']),
      (''demote_creator'', ''/api/control/demote_creator'', [''creator_id'', ''factor'']),
      (''block_tag'', ''/api/control/block_tag'', [''tag'']),
      (''unblock_tag'', ''/api/control/unblock_tag'', [''tag'']),
      (''search_content'', ''/api/search/content'', [''query'', ''limit'']),
      (''trending_content'', ''/api/content/trending'', [''category'', ''limit'']),
      (''personalized_feed'', ''/api/content/personalized_feed'', [''user_id'', ''limit''])]"

section \<open>Predicates of the specification\<close>

text \<open>
  A value that pydantic converts to a float: a float, an int, or a string that parses as
  one. Everything else is non-numeric.
\<close>

fun is_numeric :: "env \<Rightarrow> pyval \<Rightarrow> bool" where
  "is_numeric e (PInt i) = True"
| "is_numeric e (PFloat f) = True"
| "is_numeric e (PStr s) = (float_of_str e s \<noteq> None)"
| "is_numeric e v = False"

fun is_finite :: "pyval \<Rightarrow> bool" where
  "is_finite (PFloat (Finite x)) = True"
| "is_finite v = False"

fun is_str :: "pyval \<Rightarrow> bool" where
  "is_str (PStr s) = True"
| "is_str v = False"

fun is_float :: "pyval \<Rightarrow> bool" where
  "is_float (PFloat f) = True"
| "is_float v = False"

fun is_nonempty_str :: "pyval \<Rightarrow> bool" where
  "is_nonempty_str (PStr s) = (s \<noteq> [])"
| "is_nonempty_str v = False"

text \<open>
  The invariant of Weights in section 3 of the specification, in its words: keys are
  non-empty strings, values are finite numbers.
\<close>

fun spec_weights_invariant :: "pyval \<Rightarrow> bool" where
  "spec_weights_invariant (PDict items) =
     list_all (\<lambda>(k, x). is_nonempty_str k \<and> is_finite x) items"
| "spec_weights_invariant v = False"

text \<open>The factor is inside the closed range \<open>[0.0, 10.0]\<close>.\<close>

definition in_range :: "pyfloat \<Rightarrow> bool" where
  "in_range f = (float_ge f 0 \<and> float_le f 10)"

text \<open>
  The required string fields of a tool: the fields of its schema annotated \<open>str\<close>
  that have no default.
\<close>

definition required_str_fields :: "StructuredTool \<Rightarrow> string list" where
  "required_str_fields t =
     map fname (filter (\<lambda>fld. annotation fld = TStr \<and> default_value fld = None)
                  (args_schema t))"

section \<open>Policy gate\<close>

text \<open>
  Lower-casing of a tool name (\<open>str.lower()\<close> on the ASCII letters) and the substring test
  (\<open>d in s\<close>).
\<close>

definition lower_char :: "char \<Rightarrow> char" where
  "lower_char c =
     (case map_of (zip ''ABCDEFGHIJKLMNOPQRSTUVWXYZ'' ''abcdefghijklmnopqrstuvwxyz'') c of
        None \<Rightarrow> c
      | Some l \<Rightarrow> l)"

definition lower :: "string \<Rightarrow> string" where
  "lower s = map lower_char s"

fun contains :: "string \<Rightarrow> string \<Rightarrow> bool" where
  "contains [] d = (d = [])"
| "contains (c # cs) d = (prefix d (c # cs) \<or> contains cs d)"

datatype config_error = ConfigurationError

definition DisallowedActionSet :: "string list" where
  \<comment> \<open>Modelled from the spec: the policy module that defines \<open>guard_tools\<close> is not among the
      sources. Section 3 gives the set as the name substrings "like", "comment",
      "auto_like", "auto_comment".\<close>
  "DisallowedActionSet = [''like'', ''comment'', ''auto_like'', ''auto_comment'']"

definition disallowed :: "StructuredTool \<Rightarrow> bool" where
  \<comment> \<open>Modelled from the spec: the policy module is not among the sources. Section 4.4: the
      name of a descriptor is matched against the disallowed-action set by case-insensitive
      substring matching.\<close>
  "disallowed t = list_ex (contains (lower (name t))) DisallowedActionSet"

definition guard_tools :: "bool \<Rightarrow> StructuredTool list \<Rightarrow> config_error + StructuredTool list"
  where
  \<comment> \<open>Modelled from the spec: the policy module is not among the sources. Section 4.4: every
      matching descriptor is dropped, the order of the others is kept, and an empty result
      is a ConfigurationError when the caller required at least one tool (the flag).\<close>
  "guard_tools required tools =
     (let kept = filter (\<lambda>t. \<not> disallowed t) tools
      in if required \<and> kept = [] then Inl ConfigurationError else Inr kept)"

definition tool :: "string \<Rightarrow> StructuredTool" where
  \<comment> \<open>Modelled from the spec: the helper \<open>tool("...")\<close> of the testable properties in
      section 8, a descriptor with the given name that does nothing.\<close>
  "tool n = \<lparr>name = n, description = [], func = (\<lambda>e kw. (Inr PNone, [])), args_schema = []\<rparr>"

section \<open>A mocked engine\<close>

text \<open>
  The fixture of the end-to-end scenario: the engine at \<open>https://rec.example\<close> answers every
  request with the given status and body; the decoder knows the empty JSON object only, and
  no string parses as a number.
\<close>

definition mock_env :: "nat \<Rightarrow> string \<Rightarrow> env" where
  "mock_env status body =
     \<lparr>settings = \<lparr>rec_engine_url = ''https://rec.example/'', rec_api_key = Some ''secret''\<rparr>,
      transport = (\<lambda>req. Reply status body),
      loads = (\<lambda>s. if s = ''{}'' then Some (PDict []) else None),
      float_of_str = (\<lambda>s. None),
      int_of_str = (\<lambda>s. None)\<rparr>"

section \<open>The POST helper: requests issued and results\<close>

lemma rstrip_slash_no_trailing: "\<not> suffix ''/'' (rstrip_slash s)"
proof
  assume "suffix ''/'' (rstrip_slash s)"
  then obtain p where p: "rstrip_slash s = p @ ''/''" by (auto simp: suffix_def)
  then have "dropWhile (\<lambda>c. c = CHR ''/'') (rev s) = CHR ''/'' # rev p"
    by (simp add: rstrip_slash_def rev_swap)
  then show False
    by (metis (mono_tags, lifting) hd_dropWhile list.sel(1) list.distinct(1))
qed

lemma rstrip_slash_decomp:
  "s = rstrip_slash s @ replicate (length (takeWhile (\<lambda>c. c = CHR ''/'') (rev s))) (CHR ''/'')"
proof -
  let ?P = "\<lambda>c. c = CHR ''/''"
  have tw: "takeWhile ?P (rev s) = replicate (length (takeWhile ?P (rev s))) (CHR ''/'')"
    by (rule replicate_length_same [symmetric]) (auto dest: set_takeWhileD)
  have "rev s = takeWhile ?P (rev s) @ dropWhile ?P (rev s)" by simp
  then have "s = rev (dropWhile ?P (rev s)) @ rev (takeWhile ?P (rev s))"
    by (metis rev_append rev_rev_ident)
  also have "rev (takeWhile ?P (rev s)) = replicate (length (takeWhile ?P (rev s))) (CHR ''/'')"
    using tw by (metis rev_replicate)
  finally show ?thesis by (simp add: rstrip_slash_def)
qed

lemma post_requests:
  "snd (post e path payload) =
     [\<lparr>url = rstrip_slash (rec_engine_url (settings e)) @ path,
       headers = (if truthy (rec_api_key (settings e))
                  then [(''Authorization'', ''Bearer '' @ the (rec_api_key (settings e)))]
                  else []),
       json = payload, timeout = 30\<rparr>]"
  by (simp add: post_def Let_def split: reply.splits option.splits)

lemma post_not_validation: "fst (post e path payload) \<noteq> Inl ValidationError"
  by (simp add: post_def Let_def split: reply.splits option.splits)

lemma post_failure:
  "transport e = (\<lambda>req. Reply status body) \<Longrightarrow> \<not> is_success status \<Longrightarrow>
   fst (post e path payload) = Inl (HTTPError status body)"
  by (simp add: post_def Let_def)

lemma post_success:
  "transport e = (\<lambda>req. Reply status body) \<Longrightarrow> is_success status \<Longrightarrow>
   loads e body = Some v \<Longrightarrow> fst (post e path payload) = Inr v"
  by (simp add: post_def Let_def)

lemmas capability_defs =
  set_recommendation_weights_def boost_creator_def demote_creator_def block_tag_def
  unblock_tag_def search_content_def trending_content_def personalized_feed_def

lemma perform_is_post: "\<exists>path payload. perform e c = post e path payload"
  by (cases c) (auto simp: capability_defs)

text \<open>
  Claim C4. For every call of the POST helper, the one request it issues goes to the
  configured base URL with its trailing slashes stripped, followed by the path: the stripped
  base does not end in a slash and differs from the configured one by trailing slashes only.
  The request carries the header \<open>Authorization: Bearer <api_key>\<close> when an API key is
  configured (a key that is not \<open>None\<close> and not empty), and no header at all otherwise.
\<close>

theorem post_url_and_authorization:
  "map url (snd (post e path payload)) = [rstrip_slash (rec_engine_url (settings e)) @ path]
   \<and> \<not> suffix ''/'' (rstrip_slash (rec_engine_url (settings e)))
   \<and> (\<exists>n. rec_engine_url (settings e) =
            rstrip_slash (rec_engine_url (settings e)) @ replicate n (CHR ''/''))
   \<and> map headers (snd (post e path payload)) =
       [case rec_api_key (settings e) of
          None \<Rightarrow> []
        | Some k \<Rightarrow> if k = [] then [] else [(''Authorization'', ''Bearer '' @ k)]]"
proof -
  have "\<exists>n. rec_engine_url (settings e) =
            rstrip_slash (rec_engine_url (settings e)) @ replicate n (CHR ''/'')"
    using rstrip_slash_decomp [of "rec_engine_url (settings e)"] by blast
  then show ?thesis
    by (simp add: post_requests rstrip_slash_no_trailing split: option.splits)
qed

text \<open>
  Claim C5. For every capability function, when the transport answers with a status that
  is not a success, the call fails with \<open>HTTPError\<close> holding that status and the response
  body, and exactly one request was issued (no retry); when the status is a success and the
  body decodes as JSON, the decoded value is returned as it is, again after one request.
\<close>

theorem http_status_error_or_json:
  assumes "transport e = (\<lambda>req. Reply status body)"
  shows "(\<not> is_success status \<longrightarrow>
            fst (perform e c) = Inl (HTTPError status body) \<and> length (snd (perform e c)) = 1)
       \<and> (is_success status \<longrightarrow>
            (\<forall>v. loads e body = Some v \<longrightarrow> fst (perform e c) = Inr v)
            \<and> length (snd (perform e c)) = 1)"
proof -
  obtain path payload where p: "perform e c = post e path payload"
    using perform_is_post by blast
  show ?thesis
    using assms by (simp add: p post_requests post_failure post_success)
qed

theorem http_status_error_or_json_witness:
  "transport (mock_env 500 ''oops'') = (\<lambda>req. Reply 500 ''oops'')
   \<and> \<not> is_success 500
   \<and> fst (perform (mock_env 500 ''oops'') (BlockTag (PStr ''sports'')))
       = Inl (HTTPError 500 ''oops'')
   \<and> length (snd (perform (mock_env 500 ''oops'') (BlockTag (PStr ''sports'')))) = 1
   \<and> transport (mock_env 200 ''{}'') = (\<lambda>req. Reply 200 ''{}'')
   \<and> is_success 200
   \<and> loads (mock_env 200 ''{}'') ''{}'' = Some (PDict [])
   \<and> fst (perform (mock_env 200 ''{}'') (BlockTag (PStr ''sports''))) = Inr (PDict [])"
  using http_status_error_or_json
          [of "mock_env 500 ''oops''" 500 "''oops''" "BlockTag (PStr ''sports'')"]
        http_status_error_or_json
          [of "mock_env 200 ''{}''" 200 "''{}''" "BlockTag (PStr ''sports'')"]
  by (simp add: mock_env_def is_success_def)

text \<open>
  Claim C3. For every capability function and every input, the one request it issues goes
  to the fixed path that the specification's table gives for the capability, and the keys of
  its JSON payload are exactly the declared keys of that row, none missing and none added.
  In particular \<open>block_tag("sports")\<close> sends \<open>{"tag": "sports"}\<close> to
  \<open>/api/control/block_tag\<close>.
\<close>

theorem payload_matches_declared_keys:
  "(case map_of spec_mapping (cname c) of
      None \<Rightarrow> False
    | Some (p, ks) \<Rightarrow>
        map url (snd (perform e c)) = [rstrip_slash (rec_engine_url (settings e)) @ p]
        \<and> map (dict_keys \<circ> json) (snd (perform e c)) = [map PStr ks])
   \<and> map (\<lambda>r. (url r, json r)) (snd (block_tag e (PStr ''sports''))) =
       [(rstrip_slash (rec_engine_url (settings e)) @ ''/api/control/block_tag'',
         PDict [(PStr ''tag'', PStr ''sports'')])]"
  by (cases c) (simp_all add: spec_mapping_def capability_defs post_requests)

section \<open>Validation happens in the tool, not in the function\<close>

lemma validate_error: "validate e S kw = Inl err \<Longrightarrow> err = ValidationError"
  by (induction S arbitrary: err)
     (auto simp: validate_field_def split: option.splits sum.splits if_splits)

lemma validate_field_fails:
  "fld \<in> set S \<Longrightarrow> validate_field e fld kw = Inl err \<Longrightarrow> validate e S kw = Inl ValidationError"
proof (induction S)
  case Nil
  then show ?case by simp
next
  case (Cons a S)
  show ?case
  proof (cases "validate e (a # S) kw")
    case (Inl x)
    then show ?thesis using validate_error by blast
  next
    case (Inr m)
    with Cons show ?thesis by (auto split: sum.splits)
  qed
qed

lemma run_validation_error:
  "fld \<in> set (args_schema t) \<Longrightarrow> validate_field e fld kw = Inl err \<Longrightarrow>
   run e t kw = (Inl ValidationError, [])"
  by (simp add: run_def validate_field_fails)

lemma factor_out_of_range:
  assumes "map_of kw ''factor'' = Some v" "coerce e TFloat v = Some (PFloat f)" "\<not> in_range f"
  shows "validate_field e
           \<lparr>fname = ''factor'', annotation = TFloat, default_value = None,
            ge = Some 0, le = Some 10\<rparr> kw = Inl ValidationError"
  using assms by (auto simp: validate_field_def in_range_def)

lemma run_boost_out_of_range:
  assumes "map_of kw ''factor'' = Some v" "coerce e TFloat v = Some (PFloat f)" "\<not> in_range f"
  shows "run e boost_creator_tool kw = (Inl ValidationError, [])"
  by (rule run_validation_error [OF _ factor_out_of_range [OF assms]])
     (simp add: boost_creator_tool_def BoostCreatorInput_def)

lemma run_demote_out_of_range:
  assumes "map_of kw ''factor'' = Some v" "coerce e TFloat v = Some (PFloat f)" "\<not> in_range f"
  shows "run e demote_creator_tool kw = (Inl ValidationError, [])"
  by (rule run_validation_error [OF _ factor_out_of_range [OF assms]])
     (simp add: demote_creator_tool_def DemoteCreatorInput_def)

text \<open>
  Claim C1, as amended. For every factor outside the closed range \<open>[0.0, 10.0]\<close>
  (whatever value it was converted from), invoking boost_creator or demote_creator through
  its structured tool raises \<open>ValidationError\<close> and issues no request: validation is
  complete before the POST helper is entered.
\<close>

theorem factor_validated_by_tool_only:
  assumes "map_of kw ''factor'' = Some v" "coerce e TFloat v = Some (PFloat f)" "\<not> in_range f"
  shows "run e boost_creator_tool kw = (Inl ValidationError, [])
       \<and> run e demote_creator_tool kw = (Inl ValidationError, [])"
  using assms by (simp add: run_boost_out_of_range run_demote_out_of_range)

theorem factor_validated_by_tool_only_witness:
  "map_of [(''creator_id'', PStr ''c1''), (''factor'', PFloat (Finite 11))] ''factor''
     = Some (PFloat (Finite 11))
   \<and> coerce (mock_env 200 ''{}'') TFloat (PFloat (Finite 11)) = Some (PFloat (Finite 11))
   \<and> \<not> in_range (Finite 11)
   \<and> run (mock_env 200 ''{}'') boost_creator_tool
        [(''creator_id'', PStr ''c1''), (''factor'', PFloat (Finite 11))]
       = (Inl ValidationError, [])
   \<and> run (mock_env 200 ''{}'') demote_creator_tool
        [(''creator_id'', PStr ''c1''), (''factor'', PFloat (Finite 11))]
       = (Inl ValidationError, [])"
  using factor_validated_by_tool_only
          [of "[(''creator_id'', PStr ''c1''), (''factor'', PFloat (Finite 11))]"
              "PFloat (Finite 11)" "mock_env 200 ''{}''" "Finite 11"]
  by (simp add: in_range_def)

text \<open>
  The claim as stated fails for the function \<open>boost_creator\<close> itself: called with the
  factor \<open>11.0\<close> it raises no \<open>ValidationError\<close>; it sends the factor to the engine
  and returns the engine's answer.
\<close>

theorem boost_creator_unvalidated_counterexample:
  "fst (boost_creator (mock_env 200 ''{}'') (PStr ''c1'') (PFloat (Finite 11)))
     = Inr (PDict [])
   \<and> map json (snd (boost_creator (mock_env 200 ''{}'') (PStr ''c1'') (PFloat (Finite 11))))
       = [PDict [(PStr ''creator_id'', PStr ''c1''), (PStr ''factor'', PFloat (Finite 11))]]"
  by (simp add: boost_creator_def post_def mock_env_def is_success_def)

lemma post_not_type_error: "fst (post e path payload) \<noteq> Inl TypeError"
  by (simp add: post_def Let_def split: reply.splits option.splits)

lemma perform_no_argument_error:
  "fst (perform e d) \<noteq> Inl ValidationError \<and> fst (perform e d) \<noteq> Inl TypeError"
proof -
  obtain path payload where "perform e d = post e path payload"
    using perform_is_post by blast
  then show ?thesis by (simp add: post_not_validation post_not_type_error)
qed

lemma run_tag_not_str:
  "run e block_tag_tool [(''tag'', PInt i)] = (Inl ValidationError, [])
   \<and> run e unblock_tag_tool [(''tag'', PInt i)] = (Inl ValidationError, [])"
  by (simp add: run_def block_tag_tool_def unblock_tag_tool_def BlockTagInput_def
        UnblockTagInput_def validate_field_def)

text \<open>
  Claim C10. The capability functions validate nothing: each of the eight, called directly
  with any values at all, puts them unchanged into the payload of the one request it issues,
  and never fails with a validation or argument error. The range and type checks belong to
  the schema of the tool: through the tool, a factor outside \<open>[0.0, 10.0]\<close> or a tag that
  is not a string is rejected with \<open>ValidationError\<close> before any request.
\<close>

theorem capability_functions_forward_unvalidated:
  "map json (snd (set_recommendation_weights e w)) = [PDict [(PStr ''weights'', w)]]
   \<and> map json (snd (boost_creator e c f))
       = [PDict [(PStr ''creator_id'', c), (PStr ''factor'', f)]]
   \<and> map json (snd (demote_creator e c f))
       = [PDict [(PStr ''creator_id'', c), (PStr ''factor'', f)]]
   \<and> map json (snd (block_tag e t)) = [PDict [(PStr ''tag'', t)]]
   \<and> map json (snd (unblock_tag e t)) = [PDict [(PStr ''tag'', t)]]
   \<and> map json (snd (search_content e q (Some l)))
       = [PDict [(PStr ''query'', q), (PStr ''limit'', l)]]
   \<and> map json (snd (trending_content e (Some g) (Some l)))
       = [PDict [(PStr ''category'', g), (PStr ''limit'', l)]]
   \<and> map json (snd (personalized_feed e u (Some l)))
       = [PDict [(PStr ''user_id'', u), (PStr ''limit'', l)]]
   \<and> (\<forall>d. fst (perform e d) \<noteq> Inl ValidationError \<and> fst (perform e d) \<noteq> Inl TypeError)
   \<and> (\<forall>x s. \<not> in_range x \<longrightarrow>
         run e boost_creator_tool [(''creator_id'', PStr s), (''factor'', PFloat x)]
           = (Inl ValidationError, [])
         \<and> run e demote_creator_tool [(''creator_id'', PStr s), (''factor'', PFloat x)]
           = (Inl ValidationError, []))
   \<and> (\<forall>i. run e block_tag_tool [(''tag'', PInt i)] = (Inl ValidationError, [])
         \<and> run e unblock_tag_tool [(''tag'', PInt i)] = (Inl ValidationError, []))"
proof -
  have tools: "\<not> in_range x \<Longrightarrow>
         run e boost_creator_tool [(''creator_id'', PStr s), (''factor'', PFloat x)]
           = (Inl ValidationError, [])
         \<and> run e demote_creator_tool [(''creator_id'', PStr s), (''factor'', PFloat x)]
           = (Inl ValidationError, [])" for x s
    using run_boost_out_of_range [of _ "PFloat x" e x]
          run_demote_out_of_range [of _ "PFloat x" e x] by simp
  show ?thesis
    using tools perform_no_argument_error run_tag_not_str
    by (simp add: capability_defs post_requests or_default_def)
qed

theorem capability_functions_forward_unvalidated_witness:
  "\<not> in_range (Finite 11)
   \<and> map json (snd (boost_creator (mock_env 200 ''{}'') (PStr []) (PFloat (Finite 11))))
       = [PDict [(PStr ''creator_id'', PStr []), (PStr ''factor'', PFloat (Finite 11))]]
   \<and> run (mock_env 200 ''{}'') boost_creator_tool
        [(''creator_id'', PStr []), (''factor'', PFloat (Finite 11))]
       = (Inl ValidationError, [])"
  using capability_functions_forward_unvalidated
          [of "mock_env 200 ''{}''" PNone "PStr []" "PFloat (Finite 11)" PNone PNone PNone PNone PNone]
  by (simp add: in_range_def)


section \<open>Validation of the weights\<close>

lemma those_map_Some:
  "those (map g xs) = Some ys \<longleftrightarrow> list_all2 (\<lambda>x y. g x = Some y) xs ys"
proof (induction xs arbitrary: ys)
  case Nil
  then show ?case by auto
next
  case (Cons x xs)
  then show ?case
    by (cases "g x"; cases ys) (auto split: option.splits)
qed

lemma those_map_None:
  "those (map g xs) = None \<longleftrightarrow> list_ex (\<lambda>x. g x = None) xs"
  by (induction xs) (auto split: option.splits)

lemma coerce_dict:
  "coerce e (TDict ka va) (PDict items) = map_option PDict (those (map (coerce_item e ka va) items))"
  by (simp add: coerce_item_def)

lemma coerce_float_numeric: "coerce e TFloat x = None \<longleftrightarrow> \<not> is_numeric e x"
  by (cases x) auto

lemma coerce_float_is_float: "coerce e TFloat x = Some y \<Longrightarrow> is_float y"
  by (cases x) auto

lemma coerce_str_is_str: "coerce e TStr x = Some y \<Longrightarrow> is_str y"
  by (cases x) auto

lemma coerce_float_float: "is_float x \<Longrightarrow> coerce e TFloat x = Some x"
  by (cases x) auto

lemma coerce_str_str: "is_str x \<Longrightarrow> coerce e TStr x = Some x"
  by (cases x) auto

lemma weights_item_typed:
  "coerce_item e TStr TFloat kx = Some ky \<Longrightarrow> is_str (fst ky) \<and> is_float (snd ky)"
  by (cases kx)
     (auto simp: coerce_item_def simp del: coerce.simps
        dest: coerce_float_is_float coerce_str_is_str split: option.splits)

lemma weights_item_non_numeric:
  "\<not> is_numeric e (snd kx) \<Longrightarrow> coerce_item e TStr TFloat kx = None"
  by (cases kx)
     (auto simp: coerce_item_def coerce_float_numeric simp del: coerce.simps
        split: option.splits)

lemma weights_item_accepted:
  "is_str (fst kx) \<and> is_float (snd kx) \<Longrightarrow> coerce_item e TStr TFloat kx = Some kx"
  by (cases kx)
     (auto simp: coerce_item_def coerce_float_float coerce_str_str simp del: coerce.simps)

lemma weights_non_numeric:
  assumes "list_ex (\<lambda>kx. \<not> is_numeric e (snd kx)) items"
  shows "coerce e (TDict TStr TFloat) (PDict items) = None"
proof -
  have "list_ex (\<lambda>kx. coerce_item e TStr TFloat kx = None) items"
    using assms weights_item_non_numeric by (auto simp: list_ex_iff)
  then show ?thesis by (simp only: coerce_dict those_map_None [THEN iffD2] option.map)
qed

lemma weights_typed:
  assumes "coerce e (TDict TStr TFloat) v = Some w"
  shows "\<exists>items'. w = PDict items' \<and> list_all (\<lambda>ky. is_str (fst ky) \<and> is_float (snd ky)) items'"
proof -
  obtain items where v: "v = PDict items"
    using assms by (cases v) auto
  then obtain items' where w: "w = PDict items'"
    and t: "those (map (coerce_item e TStr TFloat) items) = Some items'"
    using assms by (auto simp only: coerce_dict)
  from t have "list_all2 (\<lambda>x y. coerce_item e TStr TFloat x = Some y) items items'"
    by (simp add: those_map_Some)
  then have "list_all (\<lambda>ky. is_str (fst ky) \<and> is_float (snd ky)) items'"
    by (induction rule: list_all2_induct) (auto dest: weights_item_typed)
  with w show ?thesis by blast
qed

lemma weights_accepted:
  assumes "list_all (\<lambda>kx. is_str (fst kx) \<and> is_float (snd kx)) items"
  shows "coerce e (TDict TStr TFloat) (PDict items) = Some (PDict items)"
proof -
  have "list_all2 (\<lambda>x y. coerce_item e TStr TFloat x = Some y) items items"
    using assms by (induction items) (auto simp: weights_item_accepted)
  then have "those (map (coerce_item e TStr TFloat) items) = Some items"
    by (simp add: those_map_Some)
  then show ?thesis by (simp only: coerce_dict option.map)
qed

text \<open>
  Claim C6, as amended. SetWeights takes a mapping from strings to floats: validation fails
  with \<open>ValidationError\<close> if any value is non-numeric; in every accepted mapping the keys
  are strings and the values are floats; and every mapping from strings (the empty string
  among them) to floats (NaN and the infinities among them) is accepted as it is.
\<close>

theorem set_weights_validation:
  "(map_of kw ''weights'' = Some (PDict items)
      \<and> list_ex (\<lambda>kx. \<not> is_numeric e (snd kx)) items
      \<longrightarrow> validate e SetWeightsInput kw = Inl ValidationError)
   \<and> (validate e SetWeightsInput kw = Inr m \<longrightarrow>
        (\<exists>items'. m = [(''weights'', PDict items')]
           \<and> list_all (\<lambda>ky. is_str (fst ky) \<and> is_float (snd ky)) items'))
   \<and> (list_all (\<lambda>kx. is_str (fst kx) \<and> is_float (snd kx)) items \<longrightarrow>
        validate e SetWeightsInput [(''weights'', PDict items)] = Inr [(''weights'', PDict items)])"
proof (intro conjI impI)
  assume "map_of kw ''weights'' = Some (PDict items)
      \<and> list_ex (\<lambda>kx. \<not> is_numeric e (snd kx)) items"
  then show "validate e SetWeightsInput kw = Inl ValidationError"
    using weights_non_numeric [of e items]
    by (simp add: SetWeightsInput_def validate_field_def del: coerce.simps)
next
  assume "validate e SetWeightsInput kw = Inr m"
  then obtain v w where "coerce e (TDict TStr TFloat) v = Some w" "m = [(''weights'', w)]"
    by (auto simp: SetWeightsInput_def validate_field_def simp del: coerce.simps
        split: option.splits if_splits)
  then show "\<exists>items'. m = [(''weights'', PDict items')]
           \<and> list_all (\<lambda>ky. is_str (fst ky) \<and> is_float (snd ky)) items'"
    using weights_typed by blast
next
  assume "list_all (\<lambda>kx. is_str (fst kx) \<and> is_float (snd kx)) items"
  then show "validate e SetWeightsInput [(''weights'', PDict items)] = Inr [(''weights'', PDict items)]"
    using weights_accepted [of items e]
    by (simp add: SetWeightsInput_def validate_field_def del: coerce.simps)
qed


theorem set_weights_validation_witness:
  "map_of [(''weights'', PDict [(PStr ''freshness'', PStr ''high'')])] ''weights''
     = Some (PDict [(PStr ''freshness'', PStr ''high'')])
   \<and> list_ex (\<lambda>kx. \<not> is_numeric (mock_env 200 ''{}'') (snd kx))
        [(PStr ''freshness'', PStr ''high'')]
   \<and> validate (mock_env 200 ''{}'') SetWeightsInput
        [(''weights'', PDict [(PStr ''freshness'', PStr ''high'')])] = Inl ValidationError
   \<and> list_all (\<lambda>kx. is_str (fst kx) \<and> is_float (snd kx))
        [(PStr ''freshness'', PFloat (Finite 0.4)), (PStr ''similarity'', PFloat (Finite 0.6))]
   \<and> validate (mock_env 200 ''{}'') SetWeightsInput
        [(''weights'', PDict [(PStr ''freshness'', PFloat (Finite 0.4)),
                              (PStr ''similarity'', PFloat (Finite 0.6))])]
       = Inr [(''weights'', PDict [(PStr ''freshness'', PFloat (Finite 0.4)),
                                   (PStr ''similarity'', PFloat (Finite 0.6))])]"
  using set_weights_validation
          [of "[(''weights'', PDict [(PStr ''freshness'', PStr ''high'')])]"
              "[(PStr ''freshness'', PStr ''high'')]" "mock_env 200 ''{}''" "[]"]
        set_weights_validation
          [of "[(''weights'', PDict [(PStr ''freshness'', PFloat (Finite 0.4)),
                                     (PStr ''similarity'', PFloat (Finite 0.6))])]"
              "[(PStr ''freshness'', PFloat (Finite 0.4)),
                (PStr ''similarity'', PFloat (Finite 0.6))]"
              "mock_env 200 ''{}''"
              "[(''weights'', PDict [(PStr ''freshness'', PFloat (Finite 0.4)),
                                     (PStr ''similarity'', PFloat (Finite 0.6))])]"]
  by (simp add: mock_env_def)

text \<open>
  The invariant of the claim fails: a mapping with an empty key and an infinite value is
  accepted.
\<close>

theorem weights_invariant_counterexample:
  "validate (mock_env 200 ''{}'') SetWeightsInput
     [(''weights'', PDict [(PStr [], PFloat (Finite 0.4)), (PStr ''novelty'', PFloat PosInf)])]
     = Inr [(''weights'',
             PDict [(PStr [], PFloat (Finite 0.4)), (PStr ''novelty'', PFloat PosInf)])]
   \<and> \<not> spec_weights_invariant
          (PDict [(PStr [], PFloat (Finite 0.4)), (PStr ''novelty'', PFloat PosInf)])
   \<and> \<not> is_nonempty_str (PStr [])
   \<and> \<not> is_finite (PFloat PosInf)"
  by (simp add: SetWeightsInput_def validate_field_def)


section \<open>Limits and defaults\<close>

lemmas schema_defs =
  SetWeightsInput_def BoostCreatorInput_def DemoteCreatorInput_def BlockTagInput_def
  UnblockTagInput_def SearchContentInput_def TrendingContentInput_def PersonalizedFeedInput_def

lemmas tool_defs =
  set_weights_tool_def boost_creator_tool_def demote_creator_tool_def block_tag_tool_def
  unblock_tag_tool_def search_content_tool_def trending_content_tool_def
  personalized_feed_tool_def

lemmas call_defs = call1_def call2_def call1d_def call0d_def

lemma coerce_int_is_int: "coerce e TInt v = Some w \<Longrightarrow> \<exists>i. w = PInt i"
  by (cases v) (auto split: pyfloat.splits if_splits)

lemma limit_field:
  assumes "validate_field e
             \<lparr>fname = ''limit'', annotation = TInt, default_value = Some (PInt 10),
              ge = None, le = None\<rparr> kw = Inr w"
  shows "(\<exists>i. w = PInt i) \<and> (map_of kw ''limit'' = None \<longrightarrow> w = PInt 10)"
  using assms
  by (auto simp: validate_field_def simp del: coerce.simps dest: coerce_int_is_int
      split: option.splits)

lemma limit_validated:
  assumes "S \<in> set [SearchContentInput, TrendingContentInput, PersonalizedFeedInput]"
    and "validate e S kw = Inr m"
  shows "(\<exists>i. map_of m ''limit'' = Some (PInt i))
       \<and> (map_of kw ''limit'' = None \<longrightarrow> map_of m ''limit'' = Some (PInt 10))"
  using assms
  by (auto simp: schema_defs split: sum.splits dest!: limit_field)

lemma category_default:
  assumes "validate e TrendingContentInput kw = Inr m" "map_of kw ''category'' = None"
  shows "map_of m ''category'' = Some (PStr ''all'')"
  using assms
  by (auto simp: schema_defs validate_field_def split: sum.splits)

text \<open>
  Claim C7, as amended. For SearchContent, TrendingContent and PersonalizedFeed the validated
  limit is an integer, with no lower bound: every integer, zero and the negative ones among
  them, passes validation and is forwarded by the tool as it is. The limit is 10 when it is
  omitted, in the validated model and in the request, and the category of TrendingContent
  is \<open>"all"\<close> when it is omitted.
\<close>

theorem limit_and_category_defaults:
  "(\<forall>S kw m. S \<in> set [SearchContentInput, TrendingContentInput, PersonalizedFeedInput]
        \<and> validate e S kw = Inr m \<longrightarrow>
        (\<exists>i. map_of m ''limit'' = Some (PInt i))
        \<and> (map_of kw ''limit'' = None \<longrightarrow> map_of m ''limit'' = Some (PInt 10)))
   \<and> (\<forall>kw m. validate e TrendingContentInput kw = Inr m \<and> map_of kw ''category'' = None
        \<longrightarrow> map_of m ''category'' = Some (PStr ''all''))
   \<and> run e search_content_tool [(''query'', PStr q), (''limit'', PInt i)]
       = search_content e (PStr q) (Some (PInt i))
   \<and> run e trending_content_tool [(''category'', PStr c), (''limit'', PInt i)]
       = trending_content e (Some (PStr c)) (Some (PInt i))
   \<and> run e personalized_feed_tool [(''user_id'', PStr u), (''limit'', PInt i)]
       = personalized_feed e (PStr u) (Some (PInt i))
   \<and> map json (snd (run e search_content_tool [(''query'', PStr q)]))
       = [PDict [(PStr ''query'', PStr q), (PStr ''limit'', PInt 10)]]
   \<and> map json (snd (run e trending_content_tool []))
       = [PDict [(PStr ''category'', PStr ''all''), (PStr ''limit'', PInt 10)]]
   \<and> map json (snd (run e personalized_feed_tool [(''user_id'', PStr u)]))
       = [PDict [(PStr ''user_id'', PStr u), (PStr ''limit'', PInt 10)]]"
proof -
  have runs: "run e search_content_tool [(''query'', PStr q), (''limit'', PInt i)]
       = search_content e (PStr q) (Some (PInt i))"
    "run e trending_content_tool [(''category'', PStr c), (''limit'', PInt i)]
       = trending_content e (Some (PStr c)) (Some (PInt i))"
    "run e personalized_feed_tool [(''user_id'', PStr u), (''limit'', PInt i)]
       = personalized_feed e (PStr u) (Some (PInt i))"
    "run e search_content_tool [(''query'', PStr q)] = search_content e (PStr q) None"
    "run e trending_content_tool [] = trending_content e None None"
    "run e personalized_feed_tool [(''user_id'', PStr u)] = personalized_feed e (PStr u) None"
    by (simp_all add: run_def tool_defs schema_defs validate_field_def call_defs)
  show ?thesis
    using limit_validated category_default
    by (simp add: runs capability_defs post_requests or_default_def del: set_simps) blast
qed

theorem limit_and_category_defaults_witness:
  "SearchContentInput \<in> set [SearchContentInput, TrendingContentInput, PersonalizedFeedInput]
   \<and> validate (mock_env 200 ''{}'') SearchContentInput [(''query'', PStr ''cats'')]
       = Inr [(''query'', PStr ''cats''), (''limit'', PInt 10)]
   \<and> map_of [(''query'', PStr ''cats'')] ''limit'' = None
   \<and> map_of [(''query'', PStr ''cats''), (''limit'', PInt 10)] ''limit'' = Some (PInt 10)
   \<and> validate (mock_env 200 ''{}'') TrendingContentInput [(''limit'', PInt (- 5))]
       = Inr [(''category'', PStr ''all''), (''limit'', PInt (- 5))]
   \<and> map_of [(''limit'', PInt (- 5))] ''category'' = None
   \<and> map_of [(''category'', PStr ''all''), (''limit'', PInt (- 5))] ''category''
       = Some (PStr ''all'')"
  using limit_and_category_defaults [of "mock_env 200 ''{}''"]
  by (simp add: schema_defs validate_field_def)

text \<open>
  The claim as stated fails: the limit 0 passes the validation of SearchContent, and the
  tool sends it to the engine.
\<close>

theorem limit_below_one_counterexample:
  "fst (run (mock_env 200 ''{}'') search_content_tool
          [(''query'', PStr ''cats''), (''limit'', PInt 0)]) = Inr (PDict [])
   \<and> map json (snd (run (mock_env 200 ''{}'') search_content_tool
          [(''query'', PStr ''cats''), (''limit'', PInt 0)]))
       = [PDict [(PStr ''query'', PStr ''cats''), (PStr ''limit'', PInt 0)]]
   \<and> validate (mock_env 200 ''{}'') SearchContentInput
          [(''query'', PStr ''cats''), (''limit'', PInt 0)]
       = Inr [(''query'', PStr ''cats''), (''limit'', PInt 0)]"
  by (simp add: run_def tool_defs schema_defs validate_field_def call_defs capability_defs
        post_def mock_env_def is_success_def or_default_def)


section \<open>Required string arguments\<close>

lemma coerce_str_not_str: "\<not> is_str v \<Longrightarrow> coerce e TStr v = None"
  by (cases v) auto

lemma required_str_field_fails:
  assumes "fld \<in> set (args_schema t)" "annotation fld = TStr" "default_value fld = None"
    and "case map_of kw (fname fld) of None \<Rightarrow> True | Some v \<Rightarrow> \<not> is_str v"
  shows "run e t kw = (Inl ValidationError, [])"
proof -
  have "validate_field e fld kw = Inl ValidationError"
    using assms(2-4)
    by (auto simp: validate_field_def coerce_str_not_str simp del: coerce.simps
        split: option.splits)
  then show ?thesis using assms(1) by (rule run_validation_error [rotated])
qed

lemma required_str_rejected:
  assumes "f \<in> set (required_str_fields t)"
    and "case map_of kw f of None \<Rightarrow> True | Some v \<Rightarrow> \<not> is_str v"
  shows "run e t kw = (Inl ValidationError, [])"
proof -
  from assms(1) obtain fld where "fld \<in> set (args_schema t)" "annotation fld = TStr"
    "default_value fld = None" "f = fname fld"
    by (auto simp: required_str_fields_def)
  with assms(2) show ?thesis using required_str_field_fails by blast
qed

lemma required_str_fields_of_tools:
  "map (\<lambda>t. (name t, required_str_fields t)) deep_agent_tools =
     [(''set_recommendation_weights'', []),
      (''boost_creator'', [''creator_id'']),
      (''demote_creator'', [''creator_id'']),
      (''block_tag'', [''tag'']),
      (''unblock_tag'', [''tag'']),
      (''search_content'', [''query'']),
      (''trending_content'', []),
      (''personalized_feed'', [''user_id''])]"
  by (simp add: deep_agent_tools_def required_str_fields_def tool_defs schema_defs)

lemma any_string_accepted:
  "run e boost_creator_tool [(''creator_id'', PStr s), (''factor'', PFloat (Finite 1))]
     = boost_creator e (PStr s) (PFloat (Finite 1))"
  "run e demote_creator_tool [(''creator_id'', PStr s), (''factor'', PFloat (Finite 1))]
     = demote_creator e (PStr s) (PFloat (Finite 1))"
  "run e block_tag_tool [(''tag'', PStr s)] = block_tag e (PStr s)"
  "run e unblock_tag_tool [(''tag'', PStr s)] = unblock_tag e (PStr s)"
  "run e search_content_tool [(''query'', PStr s)] = search_content e (PStr s) None"
  "run e personalized_feed_tool [(''user_id'', PStr s)] = personalized_feed e (PStr s) None"
  by (simp_all add: run_def tool_defs schema_defs validate_field_def call_defs)

text \<open>
  Claim C8, as amended. The arguments creator_id (boost and demote), tag (block and unblock),
  query (search) and user_id (personalized feed) are the required string fields of the
  tools: when one of them is missing or is not a string, running the tool fails with
  \<open>ValidationError\<close> and no request is issued. Every string, the empty one among them,
  passes validation and is handed to the function.
\<close>

theorem required_string_arguments:
  "(\<forall>t f kw. f \<in> set (required_str_fields t)
        \<and> (case map_of kw f of None \<Rightarrow> True | Some v \<Rightarrow> \<not> is_str v)
        \<longrightarrow> run e t kw = (Inl ValidationError, []))
   \<and> map (\<lambda>t. (name t, required_str_fields t)) deep_agent_tools =
       [(''set_recommendation_weights'', []),
        (''boost_creator'', [''creator_id'']),
        (''demote_creator'', [''creator_id'']),
        (''block_tag'', [''tag'']),
        (''unblock_tag'', [''tag'']),
        (''search_content'', [''query'']),
        (''trending_content'', []),
        (''personalized_feed'', [''user_id''])]
   \<and> run e boost_creator_tool [(''creator_id'', PStr s), (''factor'', PFloat (Finite 1))]
       = boost_creator e (PStr s) (PFloat (Finite 1))
   \<and> run e demote_creator_tool [(''creator_id'', PStr s), (''factor'', PFloat (Finite 1))]
       = demote_creator e (PStr s) (PFloat (Finite 1))
   \<and> run e block_tag_tool [(''tag'', PStr s)] = block_tag e (PStr s)
   \<and> run e unblock_tag_tool [(''tag'', PStr s)] = unblock_tag e (PStr s)
   \<and> run e search_content_tool [(''query'', PStr s)] = search_content e (PStr s) None
   \<and> run e personalized_feed_tool [(''user_id'', PStr s)] = personalized_feed e (PStr s) None"
  using required_str_rejected required_str_fields_of_tools
  by (simp only: any_string_accepted) blast

theorem required_string_arguments_witness:
  "''tag'' \<in> set (required_str_fields block_tag_tool)
   \<and> map_of [(''label'', PStr ''sports'')] ''tag'' = None
   \<and> run (mock_env 200 ''{}'') block_tag_tool [(''label'', PStr ''sports'')]
       = (Inl ValidationError, [])
   \<and> ''creator_id'' \<in> set (required_str_fields boost_creator_tool)
   \<and> map_of [(''creator_id'', PInt 7), (''factor'', PInt 1)] ''creator_id'' = Some (PInt 7)
   \<and> \<not> is_str (PInt 7)
   \<and> run (mock_env 200 ''{}'') boost_creator_tool [(''creator_id'', PInt 7), (''factor'', PInt 1)]
       = (Inl ValidationError, [])"
  using required_string_arguments [of "mock_env 200 ''{}''"]
  by (simp add: required_str_fields_def tool_defs schema_defs run_def validate_field_def)

text \<open>
  The claim as stated fails: the empty tag passes validation and the request is sent.
\<close>

theorem empty_string_accepted_counterexample:
  "validate (mock_env 200 ''{}'') BlockTagInput [(''tag'', PStr [])] = Inr [(''tag'', PStr [])]
   \<and> fst (run (mock_env 200 ''{}'') block_tag_tool [(''tag'', PStr [])]) = Inr (PDict [])
   \<and> map json (snd (run (mock_env 200 ''{}'') block_tag_tool [(''tag'', PStr [])]))
       = [PDict [(PStr ''tag'', PStr [])]]"
  by (simp add: run_def tool_defs schema_defs validate_field_def call_defs capability_defs
        post_def mock_env_def is_success_def)


section \<open>Validating a validated instance\<close>

lemma coerce_item_idem:
  assumes ka: "\<And>v w. coerce e ka v = Some w \<Longrightarrow> coerce e ka w = Some w"
    and va: "\<And>v w. coerce e va v = Some w \<Longrightarrow> coerce e va w = Some w"
    and c: "coerce_item e ka va kx = Some ky"
  shows "coerce_item e ka va ky = Some ky"
proof -
  obtain k x where kx: "kx = (k, x)" by (cases kx)
  from c obtain k' x' where k': "coerce e ka k = Some k'" and x': "coerce e va x = Some x'"
    and ky: "ky = (k', x')"
    unfolding kx coerce_item_def by (auto simp del: coerce.simps split: option.splits)
  have "coerce e ka k' = Some k'" using k' by (rule ka)
  moreover have "coerce e va x' = Some x'" using x' by (rule va)
  ultimately show ?thesis
    unfolding ky coerce_item_def by (simp del: coerce.simps)
qed

lemma coerce_idem: "coerce e a v = Some w \<Longrightarrow> coerce e a w = Some w"
proof (induction a arbitrary: v w)
  case TStr
  then show ?case by (cases v) auto
next
  case TInt
  then show ?case by (cases v) (auto split: pyfloat.splits if_splits)
next
  case TFloat
  then show ?case by (cases v) auto
next
  case (TDict ka va)
  have ihk: "\<And>v w. coerce e ka v = Some w \<Longrightarrow> coerce e ka w = Some w"
    by (rule TDict.IH(1))
  have ihv: "\<And>v w. coerce e va v = Some w \<Longrightarrow> coerce e va w = Some w"
    by (rule TDict.IH(2))
  from TDict.prems obtain items where v: "v = PDict items"
    by (cases v) simp_all
  from TDict.prems obtain items' where w: "w = PDict items'"
    and t: "those (map (coerce_item e ka va) items) = Some items'"
    unfolding v coerce_dict by auto
  from t have "list_all2 (\<lambda>x y. coerce_item e ka va x = Some y) items items'"
    by (simp add: those_map_Some)
  then have "list_all2 (\<lambda>x y. coerce_item e ka va x = Some y) items' items'"
  proof (induction rule: list_all2_induct)
    case Nil
    then show ?case by simp
  next
    case (Cons x xs y ys)
    have "coerce_item e ka va y = Some y"
      using ihk ihv Cons.hyps(1) by (rule coerce_item_idem)
    with Cons.IH show ?case by simp
  qed
  then have "those (map (coerce_item e ka va) items') = Some items'"
    by (simp add: those_map_Some)
  with w show ?case by (simp only: coerce_dict option.map)
qed


lemma validate_field_idem:
  assumes ok: "default_ok e fld" and v: "validate_field e fld kw = Inr v"
    and m: "map_of m (fname fld) = Some v"
  shows "validate_field e fld m = Inr v"
proof (cases "map_of kw (fname fld)")
  case None
  with v have "default_value fld = Some v"
    by (auto simp: validate_field_def split: option.splits)
  with ok have "coerce e (annotation fld) v = Some v" "check_ge (ge fld) v" "check_le (le fld) v"
    by (simp_all add: default_ok_def del: coerce.simps)
  with m show ?thesis by (simp add: validate_field_def del: coerce.simps)
next
  case (Some x)
  with v have c: "coerce e (annotation fld) x = Some v"
    and b: "check_ge (ge fld) v" "check_le (le fld) v"
    by (auto simp: validate_field_def simp del: coerce.simps split: option.splits if_splits)
  from c have "coerce e (annotation fld) v = Some v" by (rule coerce_idem)
  with b m show ?thesis by (simp add: validate_field_def del: coerce.simps)
qed

lemma validate_field_cong:
  "map_of d1 (fname fld) = map_of d2 (fname fld) \<Longrightarrow>
   validate_field e fld d1 = validate_field e fld d2"
  by (simp add: validate_field_def)

lemma validate_cong:
  "list_all (\<lambda>fld. map_of d1 (fname fld) = map_of d2 (fname fld)) S \<Longrightarrow>
   validate e S d1 = validate e S d2"
proof (induction S)
  case Nil
  then show ?case by simp
next
  case (Cons fld S)
  from Cons.prems have "map_of d1 (fname fld) = map_of d2 (fname fld)" by simp
  then have "validate_field e fld d1 = validate_field e fld d2"
    by (rule validate_field_cong)
  moreover from Cons have "validate e S d1 = validate e S d2" by simp
  ultimately show ?case by (simp cong: sum.case_cong)
qed

lemma validate_idem:
  assumes "distinct (map fname S)" "list_all (default_ok e) S" "validate e S kw = Inr m"
  shows "validate e S m = Inr m"
  using assms
proof (induction S arbitrary: m)
  case Nil
  then show ?case by simp
next
  case (Cons fld S)
  from Cons.prems(3) obtain v m' where v: "validate_field e fld kw = Inr v"
    and m': "validate e S kw = Inr m'" and m: "m = (fname fld, v) # m'"
    by (auto split: sum.splits)
  have ok: "default_ok e fld" using Cons.prems(2) by simp
  have "map_of m (fname fld) = Some v" by (simp add: m)
  with ok v have 1: "validate_field e fld m = Inr v" by (rule validate_field_idem)
  have 2: "validate e S m' = Inr m'"
    using Cons.prems(1,2) m' by (intro Cons.IH) simp_all
  have "list_all (\<lambda>f. map_of m (fname f) = map_of m' (fname f)) S"
    using Cons.prems(1) by (auto simp: m list_all_iff image_iff)
  then have 3: "validate e S m = validate e S m'" by (rule validate_cong)
  show ?case using 1 2 3 by (simp add: m)
qed

lemma schemas_distinct:
  "list_all (\<lambda>t. distinct (map fname (args_schema t))) deep_agent_tools"
  by (simp add: deep_agent_tools_def tool_defs schema_defs)

lemma schemas_defaults_ok:
  "list_all (\<lambda>t. list_all (default_ok e) (args_schema t)) deep_agent_tools"
  by (simp add: deep_agent_tools_def tool_defs schema_defs default_ok_def)

text \<open>
  Claim C9. Validation is idempotent: for each of the eight request models, validating the
  fields of an instance that validation produced succeeds and yields the same fields with
  the same values.
\<close>

theorem validation_idempotent:
  assumes "t \<in> set deep_agent_tools" "validate e (args_schema t) kw = Inr m"
  shows "validate e (args_schema t) m = Inr m"
proof -
  have "distinct (map fname (args_schema t))" "list_all (default_ok e) (args_schema t)"
    using schemas_distinct schemas_defaults_ok [of e] assms(1)
    by (auto simp: list_all_iff)
  then show ?thesis using assms(2) by (rule validate_idem)
qed

theorem validation_idempotent_witness:
  "boost_creator_tool \<in> set deep_agent_tools
   \<and> validate (mock_env 200 ''{}'') (args_schema boost_creator_tool)
        [(''factor'', PInt 3), (''note'', PNone), (''creator_id'', PStr ''c1'')]
       = Inr [(''creator_id'', PStr ''c1''), (''factor'', PFloat (Finite 3))]
   \<and> validate (mock_env 200 ''{}'') (args_schema boost_creator_tool)
        [(''creator_id'', PStr ''c1''), (''factor'', PFloat (Finite 3))]
       = Inr [(''creator_id'', PStr ''c1''), (''factor'', PFloat (Finite 3))]"
proof -
  have mem: "boost_creator_tool \<in> set deep_agent_tools"
    by (simp add: deep_agent_tools_def)
  have first: "validate (mock_env 200 ''{}'') (args_schema boost_creator_tool)
        [(''factor'', PInt 3), (''note'', PNone), (''creator_id'', PStr ''c1'')]
       = Inr [(''creator_id'', PStr ''c1''), (''factor'', PFloat (Finite 3))]"
    by (simp add: boost_creator_tool_def BoostCreatorInput_def validate_field_def)
  from mem first validation_idempotent [OF mem first] show ?thesis by simp
qed


section \<open>The policy gate\<close>

lemma contains_sublist: "contains s d \<longleftrightarrow> sublist d s"
  by (induction s) (simp_all add: sublist_Cons_right)

lemma auto_like_subsumed: "sublist ''auto_like'' s \<Longrightarrow> sublist ''like'' s"
proof -
  assume a: "sublist ''auto_like'' s"
  have "sublist ''like'' (''auto_'' @ ''like'')" by (rule sublist_append_leftI)
  then have "sublist ''like'' ''auto_like''" by simp
  from this a show ?thesis by (rule sublist_order.order_trans)
qed

lemma auto_comment_subsumed: "sublist ''auto_comment'' s \<Longrightarrow> sublist ''comment'' s"
proof -
  assume a: "sublist ''auto_comment'' s"
  have "sublist ''comment'' (''auto_'' @ ''comment'')" by (rule sublist_append_leftI)
  then have "sublist ''comment'' ''auto_comment''" by simp
  from this a show ?thesis by (rule sublist_order.order_trans)
qed

lemma disallowed_iff:
  "disallowed t \<longleftrightarrow>
     sublist ''like'' (lower (name t)) \<or> sublist ''comment'' (lower (name t))"
  using auto_like_subsumed [of "lower (name t)"] auto_comment_subsumed [of "lower (name t)"]
  by (auto simp: disallowed_def DisallowedActionSet_def contains_sublist)

lemma guard_example:
  "guard_tools required [tool ''like_post'', tool ''boost_creator'', tool ''auto_comment'']
     = Inr [tool ''boost_creator'']"
  by (simp add: guard_tools_def disallowed_def DisallowedActionSet_def tool_def lower_def
        lower_char_def)

lemma guard_keeps_recommendation_tools:
  "guard_tools required deep_agent_tools = Inr deep_agent_tools"
  by (simp add: guard_tools_def disallowed_def DisallowedActionSet_def deep_agent_tools_def
        tool_defs lower_def lower_char_def)

lemma guard_not_required:
  "guard_tools False tools =
     Inr (filter (\<lambda>t. \<not> (sublist ''like'' (lower (name t))
                           \<or> sublist ''comment'' (lower (name t)))) tools)"
  by (simp add: guard_tools_def disallowed_iff)

lemma guard_required:
  "guard_tools True tools =
     (if list_all (\<lambda>t. sublist ''like'' (lower (name t))
                        \<or> sublist ''comment'' (lower (name t))) tools
      then Inl ConfigurationError else guard_tools False tools)"
  by (auto simp: guard_tools_def disallowed_iff filter_empty_conv list_all_iff)

lemma guard_case_insensitive:
  "guard_tools True [tool ''Auto_LIKE'', tool ''COMMENTER''] = Inl ConfigurationError"
  by (simp add: guard_tools_def disallowed_def DisallowedActionSet_def tool_def lower_def
        lower_char_def)

text \<open>
  Claim C2. The gate applied to the tools named like_post, boost_creator and auto_comment
  returns exactly the tool boost_creator. For every list of tools, the result is the list
  of the tools whose lower-cased name contains neither "like" nor "comment" (the auto
  variants contain one of the two), in their original order: every matching tool is
  dropped and every other tool is kept. When the caller requires a tool and all of them
  match, the gate fails with a configuration error instead.
\<close>

theorem guard_tools_drops_disallowed:
  "guard_tools required [tool ''like_post'', tool ''boost_creator'', tool ''auto_comment'']
     = Inr [tool ''boost_creator'']
   \<and> guard_tools False tools =
       Inr (filter (\<lambda>t. \<not> (sublist ''like'' (lower (name t))
                             \<or> sublist ''comment'' (lower (name t)))) tools)
   \<and> guard_tools True tools =
       (if list_all (\<lambda>t. sublist ''like'' (lower (name t))
                          \<or> sublist ''comment'' (lower (name t))) tools
        then Inl ConfigurationError else guard_tools False tools)
   \<and> subseq (filter (\<lambda>t. \<not> (sublist ''like'' (lower (name t))
                             \<or> sublist ''comment'' (lower (name t)))) tools) tools"
  using guard_example [of required] guard_not_required [of tools] guard_required [of tools]
  by (intro conjI) (assumption, assumption, assumption, rule subseq_filter_left)

end
